theory Spec2Isabelle
  imports Complex_Main
begin

section \<open>The AdamW optimizer of \<^verbatim>\<open>optimizer.py\<close>\<close>

text \<open>
  The development embeds the class \<^verbatim>\<open>AdamW\<close>: its constructor and its method
  \<^verbatim>\<open>step\<close>. Scalars are modelled as exact reals: the theorems below are about the
  formulas the code evaluates and the order in which it evaluates them, not about rounding.
  In particular a division by zero and the root of a negative number, which give
  \<^verbatim>\<open>inf\<close> or \<^verbatim>\<open>nan\<close> in the program, are outside the model; the constructor's checks
  keep \<open>1 - beta ^ t\<close> positive.
\<close>

subsection \<open>Tensors\<close>

text \<open>
  A tensor is the list of its elements. The binary elementwise operations are modelled for
  operands of one shape, which is what the program has: a gradient has the shape of its
  parameter and the moments are created by \<^verbatim>\<open>zeros_like\<close>.
\<close>

type_synonym tensor = "real list"

text \<open>\<^verbatim>\<open>torch.zeros_like(t)\<close>\<close>

definition zeros_like :: "tensor \<Rightarrow> tensor" where
  "zeros_like t = replicate (length t) 0"

text \<open>\<^verbatim>\<open>t.mul_(c)\<close>\<close>

definition mul_inplace :: "tensor \<Rightarrow> real \<Rightarrow> tensor" where
  "mul_inplace t c = map (\<lambda>x. x * c) t"

text \<open>\<^verbatim>\<open>t.add_(other, alpha=alpha)\<close>\<close>

definition add_inplace :: "tensor \<Rightarrow> tensor \<Rightarrow> real \<Rightarrow> tensor" where
  "add_inplace t other alpha = map2 (\<lambda>x y. x + alpha * y) t other"

text \<open>\<^verbatim>\<open>t.addcmul_(t1, t2, value=value)\<close>\<close>

definition addcmul_inplace :: "tensor \<Rightarrow> tensor \<Rightarrow> tensor \<Rightarrow> real \<Rightarrow> tensor" where
  "addcmul_inplace t t1 t2 val = map2 (\<lambda>x (a, b). x + val * (a * b)) t (zip t1 t2)"

text \<open>\<^verbatim>\<open>t / c\<close>, \<^verbatim>\<open>c * t\<close>, \<^verbatim>\<open>t.sqrt()\<close>, \<^verbatim>\<open>t + c\<close> and \<^verbatim>\<open>a / b\<close>: each builds a new tensor.\<close>

definition div_scalar :: "tensor \<Rightarrow> real \<Rightarrow> tensor" where
  "div_scalar t c = map (\<lambda>x. x / c) t"

definition scalar_mul :: "real \<Rightarrow> tensor \<Rightarrow> tensor" where
  "scalar_mul c t = map (\<lambda>x. c * x) t"

definition sqrt_tensor :: "tensor \<Rightarrow> tensor" where
  "sqrt_tensor t = map sqrt t"

definition add_scalar :: "tensor \<Rightarrow> real \<Rightarrow> tensor" where
  "add_scalar t c = map (\<lambda>x. x + c) t"

definition div_tensor :: "tensor \<Rightarrow> tensor \<Rightarrow> tensor" where
  "div_tensor a b = map2 (\<lambda>x y. x / y) a b"

subsection \<open>Parameters, groups and optimizer state\<close>

text \<open>
  A gradient is dense or sparse (\<^verbatim>\<open>grad.is_sparse\<close>); a sparse one is a list of
  index and value pairs. A parameter has its values and an optional gradient
  (\<^verbatim>\<open>p.grad is None\<close>).
\<close>

datatype gradient = Dense tensor | Sparse "(nat \<times> real) list"

record parameter =
  data :: tensor
  grad :: "gradient option"

text \<open>
  Parameters are objects, compared by identity: a group lists them by address, and the
  addresses are resolved in a heap. The same address may occur more than once.
\<close>

type_synonym heap = "nat \<Rightarrow> parameter"

record group =
  group_lr :: real
  group_betas :: "real \<times> real"
  group_eps :: real
  group_weight_decay :: real
  group_correct_bias :: bool
  group_params :: "nat list"

text \<open>
  \<^verbatim>\<open>self.state[p]\<close>: the dictionary with the keys \<^verbatim>\<open>"step"\<close>, \<^verbatim>\<open>"m"\<close> and \<^verbatim>\<open>"v"\<close>. The
  counter is only ever set to 0 and incremented, so it is a natural number. A parameter
  with no entry (or with the empty dictionary) has \<open>None\<close>.
\<close>

record opt_state =
  state_step :: nat
  state_m :: tensor
  state_v :: tensor

type_synonym store = "nat \<Rightarrow> opt_state option"

record optimizer =
  param_groups :: "group list"
  state :: store

datatype error = ValueError | RuntimeError

subsection \<open>The constructor\<close>

text \<open>
  The dictionary \<^verbatim>\<open>defaults\<close> is a group without parameters. The constructor of the base
  class \<^verbatim>\<open>torch.optim.Optimizer\<close> is library code: \<open>AdamW_init\<close> takes it as the
  parameter \<open>super_init\<close>.
\<close>

record defaults =
  default_lr :: real
  default_betas :: "real \<times> real"
  default_eps :: real
  default_weight_decay :: real
  default_correct_bias :: bool

definition AdamW_init ::
  "('p \<Rightarrow> defaults \<Rightarrow> error + 'o) \<Rightarrow> 'p \<Rightarrow> real \<Rightarrow> real \<times> real \<Rightarrow> real \<Rightarrow> real \<Rightarrow> bool
    \<Rightarrow> error + 'o" where
  "AdamW_init super_init params lr betas eps weight_decay correct_bias =
     (if lr < 0 then Inl ValueError
      else if \<not> (0 \<le> fst betas \<and> fst betas < 1) then Inl ValueError
      else if \<not> (0 \<le> snd betas \<and> snd betas < 1) then Inl ValueError
      else if \<not> 0 \<le> eps then Inl ValueError
      else super_init params
             \<lparr>default_lr = lr, default_betas = betas, default_eps = eps,
              default_weight_decay = weight_decay, default_correct_bias = correct_bias\<rparr>)"

text \<open>
  The base constructor for a plain list of parameters, as the library documents it: an
  empty list is refused, otherwise the optimizer has one group, made of the defaults and
  the list, and no state.
\<close>

definition Optimizer_init :: "nat list \<Rightarrow> defaults \<Rightarrow> error + optimizer" where
  "Optimizer_init params d =
     (if params = [] then Inl ValueError
      else Inr \<lparr>param_groups =
                  [\<lparr>group_lr = default_lr d, group_betas = default_betas d,
                    group_eps = default_eps d, group_weight_decay = default_weight_decay d,
                    group_correct_bias = default_correct_bias d,
                    group_params = params\<rparr>],
                state = (\<lambda>_. None)\<rparr>)"

subsection \<open>The method \<^verbatim>\<open>step\<close>\<close>

text \<open>
  The body of the inner loop, for one parameter \<open>p\<close> of a group: it reads and writes the
  state entry of \<open>p\<close> and the parameter itself, nothing else. \<open>Inr\<close> is the normal end of
  the iteration (also after \<^verbatim>\<open>continue\<close>), \<open>Inl\<close> the exception.
\<close>

definition update_body ::
  "group \<Rightarrow> opt_state option \<Rightarrow> parameter \<Rightarrow> error + opt_state option \<times> parameter" where
  "update_body grp state_p p =
     (let lr = group_lr grp;
          (beta1, beta2) = group_betas grp;
          eps = group_eps grp;
          weight_decay = group_weight_decay grp;
          correct_bias = group_correct_bias grp
      in case grad p of
           None \<Rightarrow> Inr (state_p, p)
         | Some (Sparse _) \<Rightarrow> Inl RuntimeError
         | Some (Dense grad_data) \<Rightarrow>
             (let state0 = (case state_p of
                              None \<Rightarrow> \<lparr>state_step = 0, state_m = zeros_like (data p),
                                       state_v = zeros_like (data p)\<rparr>
                            | Some s \<Rightarrow> s);
                  step = state_step state0 + 1;
                  m = add_inplace (mul_inplace (state_m state0) beta1) grad_data (1 - beta1);
                  v = addcmul_inplace (mul_inplace (state_v state0) beta2) grad_data grad_data (1 - beta2);
                  m_hat = (if correct_bias then div_scalar m (1 - beta1 ^ step) else m);
                  v_hat = (if correct_bias then div_scalar v (1 - beta2 ^ step) else v);
                  update = div_tensor (scalar_mul lr m_hat) (add_scalar (sqrt_tensor v_hat) eps);
                  p_data = add_inplace (data p) update (- 1);
                  p_data = (if weight_decay \<noteq> 0
                            then add_inplace p_data p_data (- lr * weight_decay) else p_data)
              in Inr (Some \<lparr>state_step = step, state_m = m, state_v = v\<rparr>,
                      p\<lparr>data := p_data\<rparr>)))"

text \<open>One iteration of the inner loop on the store and the heap.\<close>

definition update_param :: "group \<Rightarrow> nat \<Rightarrow> store \<times> heap \<Rightarrow> (error + unit) \<times> store \<times> heap" where
  "update_param grp p w =
     (case update_body grp (fst w p) (snd w p) of
        Inl e \<Rightarrow> (Inl e, w)
      | Inr (s, q) \<Rightarrow> (Inr (), (fst w)(p := s), (snd w)(p := q)))"

text \<open>\<^verbatim>\<open>for p in group["params"]\<close>: an exception ends the loop and keeps what was written.\<close>

fun loop_params :: "group \<Rightarrow> nat list \<Rightarrow> store \<times> heap \<Rightarrow> (error + unit) \<times> store \<times> heap" where
  "loop_params grp [] w = (Inr (), w)"
| "loop_params grp (p # ps) w =
     (case update_param grp p w of
        (Inl e, w') \<Rightarrow> (Inl e, w')
      | (Inr _, w') \<Rightarrow> loop_params grp ps w')"

text \<open>\<^verbatim>\<open>for group in self.param_groups\<close>\<close>

fun loop_groups :: "group list \<Rightarrow> store \<times> heap \<Rightarrow> (error + unit) \<times> store \<times> heap" where
  "loop_groups [] w = (Inr (), w)"
| "loop_groups (grp # groups) w =
     (case loop_params grp (group_params grp) w of
        (Inl e, w') \<Rightarrow> (Inl e, w')
      | (Inr _, w') \<Rightarrow> loop_groups groups w')"

text \<open>
  A closure is a function of the training system: it returns a value and may rewrite the
  parameters and their gradients. The optimizer's state belongs to the optimizer alone.
  \<open>step\<close> returns the loss (\<open>None\<close> without a closure) or the exception, and the optimizer
  and the heap as they are at that moment.
\<close>

type_synonym 'r closure = "heap \<Rightarrow> 'r \<times> heap"

definition step ::
  "'r closure option \<Rightarrow> optimizer \<times> heap \<Rightarrow> (error + 'r option) \<times> optimizer \<times> heap" where
  "step closure w =
     (let (self, h) = w;
          (loss, h) = (case closure of
                         None \<Rightarrow> (None, h)
                       | Some c \<Rightarrow> (let (r, h') = c h in (Some r, h')));
          (outcome, st, h) = loop_groups (param_groups self) (state self, h)
      in (case outcome of Inl e \<Rightarrow> Inl e | Inr _ \<Rightarrow> Inr loss,
          self\<lparr>state := st\<rparr>, h))"

subsection \<open>Notions used to state the properties\<close>

text \<open>The heap on which the loops start: the one the closure leaves, if there is a closure.\<close>

definition closure_heap :: "'r closure option \<Rightarrow> heap \<Rightarrow> heap" where
  "closure_heap closure h = (case closure of None \<Rightarrow> h | Some c \<Rightarrow> snd (c h))"

text \<open>The visits of the two nested loops, in order: each parameter with its group.\<close>

definition visits :: "group list \<Rightarrow> (group \<times> nat) list" where
  "visits groups = concat (map (\<lambda>grp. map (Pair grp) (group_params grp)) groups)"

text \<open>The inner loop's iterations along a list of visits.\<close>

fun loop_visits :: "(group \<times> nat) list \<Rightarrow> store \<times> heap \<Rightarrow> (error + unit) \<times> store \<times> heap" where
  "loop_visits [] w = (Inr (), w)"
| "loop_visits (x # xs) w =
     (case update_param (fst x) (snd x) w of
        (Inl e, w') \<Rightarrow> (Inl e, w')
      | (Inr _, w') \<Rightarrow> loop_visits xs w')"

text \<open>How often the loops visit the parameter \<open>p\<close>.\<close>

definition visit_count :: "group list \<Rightarrow> nat \<Rightarrow> nat" where
  "visit_count groups p = count_list (map snd (visits groups)) p"

text \<open>The stored step count, 0 for a parameter without state.\<close>

definition stored_step :: "opt_state option \<Rightarrow> nat" where
  "stored_step s = (case s of None \<Rightarrow> 0 | Some x \<Rightarrow> state_step x)"

text \<open>The state the update starts from: the stored one, or the one created on first use.\<close>

definition state_or_new :: "opt_state option \<Rightarrow> parameter \<Rightarrow> opt_state" where
  "state_or_new s p =
     (case s of
        None \<Rightarrow> \<lparr>state_step = 0, state_m = zeros_like (data p), state_v = zeros_like (data p)\<rparr>
      | Some x \<Rightarrow> x)"

text \<open>
  A training loop: consecutive calls of \<open>step\<close>, one for each closure of the list, which
  stops at the first exception.
\<close>

fun repeat_step ::
  "'r closure option list \<Rightarrow> optimizer \<times> heap \<Rightarrow> (error + unit) \<times> optimizer \<times> heap" where
  "repeat_step [] w = (Inr (), w)"
| "repeat_step (c # cs) w =
     (case step c w of
        (Inl e, w') \<Rightarrow> (Inl e, w')
      | (Inr _, w') \<Rightarrow> repeat_step cs w')"

fun is_dense :: "gradient option \<Rightarrow> bool" where
  "is_dense (Some (Dense _)) = True"
| "is_dense _ = False"

fun is_sparse :: "gradient option \<Rightarrow> bool" where
  "is_sparse (Some (Sparse _)) = True"
| "is_sparse _ = False"

text \<open>Two heaps with the same gradients and the same shapes of values.\<close>

definition same_shape :: "heap \<Rightarrow> heap \<Rightarrow> bool" where
  "same_shape h' h \<longleftrightarrow>
     (\<forall>q. grad (h' q) = grad (h q) \<and> length (data (h' q)) = length (data (h q)))"

subsection \<open>The formulas of the specification\<close>

text \<open>
  The update rule as the specification writes it, elementwise: the moments, the bias
  correction with the scalar power \<open>beta ^ t\<close>, the update magnitude and the decoupled decay.
\<close>

definition spec_m :: "real \<Rightarrow> tensor \<Rightarrow> tensor \<Rightarrow> tensor" where
  "spec_m beta1 m g = map2 (\<lambda>m g. beta1 * m + (1 - beta1) * g) m g"

definition spec_v :: "real \<Rightarrow> tensor \<Rightarrow> tensor \<Rightarrow> tensor" where
  "spec_v beta2 v g = map2 (\<lambda>v g. beta2 * v + (1 - beta2) * g\<^sup>2) v g"

definition spec_hat :: "bool \<Rightarrow> real \<Rightarrow> nat \<Rightarrow> tensor \<Rightarrow> tensor" where
  "spec_hat correct_bias beta t x = (if correct_bias then map (\<lambda>x. x / (1 - beta ^ t)) x else x)"

definition spec_delta :: "real \<Rightarrow> real \<Rightarrow> tensor \<Rightarrow> tensor \<Rightarrow> tensor" where
  "spec_delta lr eps m_hat v_hat = map2 (\<lambda>m_hat v_hat. lr * m_hat / (sqrt v_hat + eps)) m_hat v_hat"

definition spec_decay :: "real \<Rightarrow> real \<Rightarrow> tensor \<Rightarrow> tensor" where
  "spec_decay lr weight_decay x =
     (if weight_decay \<noteq> 0 then map (\<lambda>x. x - lr * weight_decay * x) x else x)"

text \<open>The update magnitude \<open>delta\<close> of one parameter, from the state its update starts from.\<close>

definition spec_update :: "group \<Rightarrow> opt_state \<Rightarrow> tensor \<Rightarrow> tensor" where
  "spec_update grp state0 g =
     (let beta1 = fst (group_betas grp); beta2 = snd (group_betas grp);
          t = state_step state0 + 1;
          m = spec_m beta1 (state_m state0) g;
          v = spec_v beta2 (state_v state0) g
      in spec_delta (group_lr grp) (group_eps grp)
           (spec_hat (group_correct_bias grp) beta1 t m)
           (spec_hat (group_correct_bias grp) beta2 t v))"

subsection \<open>An optimizer and a heap to run the theorems on\<close>

text \<open>
  One group with the parameters 1, 2 and 0, in this order. Parameter 1 is the example of the
  specification: the value 1.0 with the gradient 0.1. The others have no gradient; the
  closure gives parameter 2 a gradient, and in the second heap its gradient is sparse.
\<close>

definition example_group :: group where
  "example_group =
     \<lparr>group_lr = 0.1, group_betas = (0.9, 0.999), group_eps = 1 / 10 ^ 6,
      group_weight_decay = 0, group_correct_bias = True, group_params = [1, 2, 0]\<rparr>"

definition example_optimizer :: optimizer where
  "example_optimizer = \<lparr>param_groups = [example_group], state = (\<lambda>_. None)\<rparr>"

definition example_heap :: heap where
  "example_heap =
     (\<lambda>_. \<lparr>data = [1], grad = None\<rparr>)(1 := \<lparr>data = [1], grad = Some (Dense [0.1])\<rparr>)"

definition example_closure :: "nat closure" where
  "example_closure h = (7, h(2 := (h 2)\<lparr>grad := Some (Dense [0.1])\<rparr>))"

definition example_sparse_heap :: heap where
  "example_sparse_heap = example_heap(2 := \<lparr>data = [1], grad = Some (Sparse [(0, 0.1)])\<rparr>)"

text \<open>
  Variants of the example: a group with the weight decay 0.01, a group without bias
  correction, and a heap in which the gradient of parameter 1 is zero.
\<close>

definition example_decay_optimizer :: optimizer where
  "example_decay_optimizer =
     \<lparr>param_groups = [example_group\<lparr>group_weight_decay := 1 / 100\<rparr>], state = (\<lambda>_. None)\<rparr>"

definition example_raw_group :: group where
  "example_raw_group = example_group\<lparr>group_correct_bias := False\<rparr>"

definition example_raw_optimizer :: optimizer where
  "example_raw_optimizer = \<lparr>param_groups = [example_raw_group], state = (\<lambda>_. None)\<rparr>"

definition example_zero_heap :: heap where
  "example_zero_heap = example_heap(1 := \<lparr>data = [1], grad = Some (Dense [0])\<rparr>)"

section \<open>The constructor's checks\<close>

text \<open>
  Claim C5. Construction fails (with \<^verbatim>\<open>ValueError\<close>, the program's invalid-configuration
  error) whenever the learning rate is negative, or \<open>beta1\<close> or \<open>beta2\<close> is outside
  \<open>[0, 1)\<close>, or epsilon is negative. In particular a learning rate of \<open>-0.1\<close>,
  \<open>beta1 = 1.0\<close>, \<open>beta2 = -0.1\<close> and an epsilon of \<open>-1e-8\<close> each fail, whatever the
  other arguments are, while the learning rate \<open>0.001\<close> with the betas \<open>(0.9, 0.999)\<close> and
  the epsilon \<open>1e-6\<close> passes every check: the result is that of the base constructor, which
  succeeds on a non-empty list of parameters.
\<close>

theorem AdamW_init_rejects:
  "(lr < 0 \<or> \<not> (0 \<le> beta1 \<and> beta1 < 1) \<or> \<not> (0 \<le> beta2 \<and> beta2 < 1) \<or> eps < 0
      \<longrightarrow> AdamW_init super_init params lr (beta1, beta2) eps weight_decay correct_bias
            = Inl ValueError)
   \<and> AdamW_init super_init params (- 0.1) (beta1, beta2) eps weight_decay correct_bias
       = Inl ValueError
   \<and> AdamW_init super_init params lr (1.0, beta2) eps weight_decay correct_bias = Inl ValueError
   \<and> AdamW_init super_init params lr (beta1, - 0.1) eps weight_decay correct_bias = Inl ValueError
   \<and> AdamW_init super_init params lr (beta1, beta2) (- (1 / 10 ^ 8)) weight_decay correct_bias
       = Inl ValueError
   \<and> AdamW_init super_init params 0.001 (0.9, 0.999) (1 / 10 ^ 6) weight_decay correct_bias
       = super_init params
           \<lparr>default_lr = 0.001, default_betas = (0.9, 0.999), default_eps = 1 / 10 ^ 6,
            default_weight_decay = weight_decay, default_correct_bias = correct_bias\<rparr>
   \<and> (ps \<noteq> [] \<longrightarrow>
        (\<exists>opt. AdamW_init Optimizer_init ps 0.001 (0.9, 0.999) (1 / 10 ^ 6) weight_decay
                 correct_bias = Inr opt))"
  by (auto simp: AdamW_init_def Optimizer_init_def)

theorem AdamW_init_rejects_witness:
  "((- 1 :: real) < 0 \<or> \<not> (0 \<le> (0.9::real) \<and> (0.9::real) < 1)
      \<or> \<not> (0 \<le> (0.999::real) \<and> (0.999::real) < 1) \<or> (0::real) < 0)
   \<and> AdamW_init Optimizer_init [0] (- 1) (0.9, 0.999) 0 0 True = Inl ValueError
   \<and> [0::nat] \<noteq> []
   \<and> (\<exists>opt. AdamW_init Optimizer_init [0] 0.001 (0.9, 0.999) (1 / 10 ^ 6) 0 True = Inr opt)"
  using AdamW_init_rejects [where lr = "- 1" and ?beta1.0 = "0.9" and ?beta2.0 = "0.999" and eps = 0
      and super_init = Optimizer_init and params = "[0]" and weight_decay = 0
      and correct_bias = True and ps = "[0]"]
  by (simp add: Optimizer_init_def)

text \<open>
  Claim C10. The constructor does not check the weight decay: when the learning rate, the
  betas and epsilon pass their checks, construction with any weight decay, negative ones
  included, hands the value unchanged to the base constructor, and the group that the base
  constructor builds from a non-empty list of parameters stores that very value.
\<close>

theorem AdamW_init_weight_decay:
  "0 \<le> lr \<and> 0 \<le> beta1 \<and> beta1 < 1 \<and> 0 \<le> beta2 \<and> beta2 < 1 \<and> 0 \<le> eps \<Longrightarrow>
   AdamW_init super_init params lr (beta1, beta2) eps weight_decay correct_bias
     = super_init params
         \<lparr>default_lr = lr, default_betas = (beta1, beta2), default_eps = eps,
          default_weight_decay = weight_decay, default_correct_bias = correct_bias\<rparr>
   \<and> (ps \<noteq> [] \<longrightarrow>
        (\<exists>opt. AdamW_init Optimizer_init ps lr (beta1, beta2) eps weight_decay correct_bias
                 = Inr opt
               \<and> map group_weight_decay (param_groups opt) = [weight_decay]))"
  by (auto simp: AdamW_init_def Optimizer_init_def)

theorem AdamW_init_weight_decay_witness:
  "((0::real) \<le> 0.001 \<and> (0::real) \<le> 0.9 \<and> (0.9::real) < 1 \<and> (0::real) \<le> 0.999
      \<and> (0.999::real) < 1 \<and> (0::real) \<le> 1 / 10 ^ 6)
   \<and> [0::nat] \<noteq> []
   \<and> (\<exists>opt. AdamW_init Optimizer_init [0] 0.001 (0.9, 0.999) (1 / 10 ^ 6) (- 5) True = Inr opt
            \<and> map group_weight_decay (param_groups opt) = [- 5])"
  using AdamW_init_weight_decay [where lr = "0.001" and ?beta1.0 = "0.9" and ?beta2.0 = "0.999"
      and eps = "1 / 10 ^ 6" and weight_decay = "- 5" and correct_bias = True and ps = "[0]"
      and super_init = Optimizer_init and params = "[0]"]
  by (simp add: Optimizer_init_def)

section \<open>The loops of \<^verbatim>\<open>step\<close>\<close>

text \<open>\<open>step\<close> runs the loops on the heap the closure leaves; the loops are a single pass over the visits.\<close>

lemma step_loop:
  "step closure (opt, h) =
     (case loop_groups (param_groups opt) (state opt, closure_heap closure h) of
        (out, st, h') \<Rightarrow>
          (case out of Inl e \<Rightarrow> Inl e
                     | Inr _ \<Rightarrow> Inr (map_option (\<lambda>c. fst (c h)) closure),
           opt\<lparr>state := st\<rparr>, h'))"
  by (cases closure) (auto simp: step_def closure_heap_def split: prod.splits sum.splits)

lemma loop_visits_append:
  "loop_visits (xs @ ys) w =
     (case loop_visits xs w of (Inl e, w') \<Rightarrow> (Inl e, w') | (Inr _, w') \<Rightarrow> loop_visits ys w')"
  by (induction xs arbitrary: w) (auto split: prod.splits sum.splits)

lemma loop_params_visits: "loop_params grp ps w = loop_visits (map (Pair grp) ps) w"
  by (induction ps arbitrary: w) (auto split: prod.splits sum.splits)

lemma loop_groups_visits: "loop_groups groups w = loop_visits (visits groups) w"
  by (induction groups arbitrary: w)
     (auto simp: visits_def loop_visits_append loop_params_visits split: prod.splits sum.splits)

lemma update_param_absent:
  "grad (snd w p) = None \<Longrightarrow> update_param grp p w = (Inr (), w)"
  by (simp add: update_param_def update_body_def split: prod.splits)

lemma update_param_sparse:
  "grad (snd w p) = Some (Sparse x) \<Longrightarrow> update_param grp p w = (Inl RuntimeError, w)"
  by (simp add: update_param_def update_body_def split: prod.splits)

lemma update_param_other:
  "q \<noteq> p \<Longrightarrow> fst (snd (update_param grp p w)) q = fst w q
     \<and> snd (snd (update_param grp p w)) q = snd w q"
  by (auto simp: update_param_def split: sum.splits)

lemma update_param_grad:
  "grad (snd (snd (update_param grp p w)) q) = grad (snd w q)"
  by (auto simp: update_param_def update_body_def Let_def
           split: sum.splits option.splits gradient.splits prod.splits)


lemma loop_visits_grad:
  "grad (snd (snd (loop_visits xs w)) q) = grad (snd w q)"
proof (induction xs arbitrary: w)
  case Nil
  show ?case by simp
next
  case (Cons x xs)
  obtain out w' where u: "update_param (fst x) (snd x) w = (out, w')"
    by (cases "update_param (fst x) (snd x) w")
  have g: "grad (snd w' q) = grad (snd w q)"
    using update_param_grad [of "fst x" "snd x" w q] u by simp
  show ?case
  proof (cases out)
    case (Inl e)
    with u g show ?thesis by simp
  next
    case (Inr a)
    with u g Cons.IH [of w'] show ?thesis by simp
  qed
qed

lemma loop_visits_other:
  "q \<notin> snd ` set xs \<Longrightarrow>
   fst (snd (loop_visits xs w)) q = fst w q \<and> snd (snd (loop_visits xs w)) q = snd w q"
proof (induction xs arbitrary: w)
  case Nil
  show ?case by simp
next
  case (Cons x xs)
  obtain out w' where u: "update_param (fst x) (snd x) w = (out, w')"
    by (cases "update_param (fst x) (snd x) w")
  from Cons.prems have ne: "q \<noteq> snd x" and rest: "q \<notin> snd ` set xs" by auto
  have o: "fst w' q = fst w q \<and> snd w' q = snd w q"
    using update_param_other [OF ne, of "fst x" w] u by simp
  show ?case
  proof (cases out)
    case (Inl e)
    with u o show ?thesis by simp
  next
    case (Inr a)
    with u o Cons.IH [OF rest, of w'] show ?thesis by simp
  qed
qed

lemma loop_visits_absent:
  "grad (snd w q) = None \<Longrightarrow>
   fst (snd (loop_visits xs w)) q = fst w q \<and> snd (snd (loop_visits xs w)) q = snd w q"
proof (induction xs arbitrary: w)
  case Nil
  show ?case by simp
next
  case (Cons x xs)
  obtain out w' where u: "update_param (fst x) (snd x) w = (out, w')"
    by (cases "update_param (fst x) (snd x) w")
  have o: "fst w' q = fst w q \<and> snd w' q = snd w q"
  proof (cases "q = snd x")
    case True
    with Cons.prems u update_param_absent [of w "snd x" "fst x"] show ?thesis by simp
  next
    case False
    with u update_param_other [of q "snd x" "fst x" w] show ?thesis by simp
  qed
  with Cons.prems have g: "grad (snd w' q) = None" by simp
  show ?case
  proof (cases out)
    case (Inl e)
    with u o show ?thesis by simp
  next
    case (Inr a)
    with u o Cons.IH [OF g] show ?thesis by simp
  qed
qed

lemma update_param_ok:
  "fst (update_param grp p w) = Inr () \<longleftrightarrow> \<not> is_sparse (grad (snd w p))"
  by (cases "grad (snd w p)" rule: is_sparse.cases)
     (auto simp: update_param_def update_body_def Let_def split: prod.splits)

lemma loop_visits_ok:
  "fst (loop_visits xs w) = Inr () \<longleftrightarrow> (\<forall>x\<in>set xs. \<not> is_sparse (grad (snd w (snd x))))"
proof (induction xs arbitrary: w)
  case Nil
  show ?case by simp
next
  case (Cons x xs)
  obtain out w' where u: "update_param (fst x) (snd x) w = (out, w')"
    by (cases "update_param (fst x) (snd x) w")
  have g: "\<And>q. grad (snd w' q) = grad (snd w q)"
    using update_param_grad [of "fst x" "snd x" w] u by simp
  show ?case
  proof (cases out)
    case (Inl e)
    with u update_param_ok [of "fst x" "snd x" w] show ?thesis by auto
  next
    case (Inr a)
    with u update_param_ok [of "fst x" "snd x" w] Cons.IH [of w'] g show ?thesis by auto
  qed
qed

lemma step_world:
  "snd (step closure (opt, h)) =
     (opt\<lparr>state := fst (snd (loop_visits (visits (param_groups opt))
                                 (state opt, closure_heap closure h)))\<rparr>,
      snd (snd (loop_visits (visits (param_groups opt)) (state opt, closure_heap closure h))))"
  by (simp add: step_loop loop_groups_visits split: prod.splits)

lemma step_outcome:
  "fst (step closure (opt, h)) =
     (case fst (loop_visits (visits (param_groups opt)) (state opt, closure_heap closure h)) of
        Inl e \<Rightarrow> Inl e
      | Inr _ \<Rightarrow> Inr (map_option (\<lambda>c. fst (c h)) closure))"
  by (simp add: step_loop loop_groups_visits split: prod.splits)

lemma example_visits:
  "visits (param_groups example_optimizer)
     = [(example_group, 1), (example_group, 2), (example_group, 0)]"
  by (simp add: visits_def example_optimizer_def example_group_def)

section \<open>Parameters without a gradient\<close>

lemma step_absent:
  "grad (closure_heap closure h p) = None \<Longrightarrow>
   snd (snd (step closure (opt, h))) p = closure_heap closure h p
   \<and> state (fst (snd (step closure (opt, h)))) p = state opt p"
  using loop_visits_absent [of "(state opt, closure_heap closure h)" p
          "visits (param_groups opt)"]
  by (simp add: step_world)

lemma repeat_step_absent:
  "grad (h p) = None \<Longrightarrow>
   \<forall>c\<in>set cs. \<forall>h'. grad (h' p) = None \<longrightarrow> closure_heap c h' p = h' p \<Longrightarrow>
   snd (snd (repeat_step cs (opt, h))) p = h p
   \<and> state (fst (snd (repeat_step cs (opt, h)))) p = state opt p"
proof (induction cs arbitrary: opt h)
  case Nil
  show ?case by simp
next
  case (Cons c cs)
  obtain out opt' h' where s: "step c (opt, h) = (out, opt', h')"
    by (cases "step c (opt, h)")
  from Cons.prems have ch: "closure_heap c h p = h p" by simp
  with Cons.prems have "grad (closure_heap c h p) = None" by simp
  from step_absent [OF this, of opt] s ch
  have same: "h' p = h p" "state opt' p = state opt p" by simp_all
  with Cons.prems have g: "grad (h' p) = None" by simp
  from Cons.prems
  have cl: "\<forall>c\<in>set cs. \<forall>h'. grad (h' p) = None \<longrightarrow> closure_heap c h' p = h' p" by simp
  show ?case
  proof (cases out)
    case (Inl e)
    with s same show ?thesis by simp
  next
    case (Inr r)
    with s same Cons.IH [of h' opt'] g cl show ?thesis by simp
  qed
qed

text \<open>
  Claim C7. A parameter whose gradient is absent when the loops of \<open>step\<close> start is left
  exactly as it is, values and gradient, and its state entry is left as it is: none is
  created when there was none and no step counter advances. This holds whether or not the
  call ends with an exception, and after any number of consecutive calls of \<open>step\<close> whose
  closures leave the parameter alone while its gradient is absent.
\<close>

theorem absent_gradient_skipped:
  "(grad (closure_heap closure h p) = None \<longrightarrow>
      snd (snd (step closure (opt, h))) p = closure_heap closure h p
      \<and> state (fst (snd (step closure (opt, h)))) p = state opt p)
   \<and> (grad (h p) = None
        \<and> (\<forall>c\<in>set cs. \<forall>h'. grad (h' p) = None \<longrightarrow> closure_heap c h' p = h' p) \<longrightarrow>
      snd (snd (repeat_step cs (opt, h))) p = h p
      \<and> state (fst (snd (repeat_step cs (opt, h)))) p = state opt p)"
  using step_absent [of closure h p opt] repeat_step_absent [of h p cs opt] by blast

theorem absent_gradient_skipped_witness:
  "grad (closure_heap (Some example_closure) example_heap 0) = None
   \<and> snd (snd (step (Some example_closure) (example_optimizer, example_heap))) 0
       = \<lparr>data = [1], grad = None\<rparr>
   \<and> state (fst (snd (step (Some example_closure) (example_optimizer, example_heap)))) 0 = None
   \<and> grad (example_heap 0) = None
   \<and> (\<forall>h'. closure_heap (None :: nat closure option) h' 0 = h' 0)
   \<and> (\<forall>h'. closure_heap (Some example_closure) h' 0 = h' 0)
   \<and> snd (snd (repeat_step [None, Some example_closure, None]
                  (example_optimizer, example_heap))) 0 = \<lparr>data = [1], grad = None\<rparr>
   \<and> state (fst (snd (repeat_step [None, Some example_closure, None]
                        (example_optimizer, example_heap)))) 0 = None"
  using absent_gradient_skipped [of "Some example_closure" example_heap 0 example_optimizer
          "[None, Some example_closure, None]"]
  by (simp add: closure_heap_def example_closure_def example_heap_def example_optimizer_def)

section \<open>The closure\<close>



section \<open>Sparse gradients\<close>

lemma loop_visits_sparse:
  assumes pre: "\<forall>x\<in>set pre. \<not> is_sparse (grad (snd w (snd x)))"
      and sp: "grad (snd w p) = Some (Sparse s)"
  shows "loop_visits (pre @ (grp, p) # post) w = (Inl RuntimeError, snd (loop_visits pre w))
    \<and> fst (loop_visits pre w) = Inr ()
    \<and> fst (snd (loop_visits pre w)) p = fst w p
    \<and> snd (snd (loop_visits pre w)) p = snd w p"
proof -
  have ok: "fst (loop_visits pre w) = Inr ()"
    using pre by (simp add: loop_visits_ok)
  obtain w' where w': "loop_visits pre w = (Inr (), w')"
    using ok by (cases "loop_visits pre w") auto
  have "grad (snd w' p) = Some (Sparse s)"
    using loop_visits_grad [of pre w p] w' sp by simp
  then have "update_param grp p w' = (Inl RuntimeError, w')"
    by (rule update_param_sparse)
  then have fail:
    "loop_visits (pre @ (grp, p) # post) w = (Inl RuntimeError, snd (loop_visits pre w))"
    by (simp add: loop_visits_append w')
  have "p \<notin> snd ` set pre"
    using pre sp by auto
  then have "fst (snd (loop_visits pre w)) p = fst w p \<and> snd (snd (loop_visits pre w)) p = snd w p"
    by (rule loop_visits_other)
  with ok fail show ?thesis by simp
qed

text \<open>
  Claim C6. When the loops reach a parameter whose gradient is sparse, all visits before it
  having met no sparse gradient, \<open>step\<close> ends at once with \<^verbatim>\<open>RuntimeError\<close> (the program's
  unsupported-gradient error): the optimizer and the heap are exactly what the visits before
  the failing one made of them, those visits all ended normally and nothing of them is
  undone, no later visit takes place, and the state entry and the failing parameter itself
  are what they were when the loops started.
\<close>

theorem sparse_gradient_fails:
  assumes "visits (param_groups opt) = pre @ (grp, p) # post"
      and "\<forall>x\<in>set pre. \<not> is_sparse (grad (closure_heap closure h (snd x)))"
      and "grad (closure_heap closure h p) = Some (Sparse s)"
  shows "fst (step closure (opt, h)) = Inl RuntimeError
    \<and> fst (loop_visits pre (state opt, closure_heap closure h)) = Inr ()
    \<and> snd (step closure (opt, h)) =
        (opt\<lparr>state := fst (snd (loop_visits pre (state opt, closure_heap closure h)))\<rparr>,
         snd (snd (loop_visits pre (state opt, closure_heap closure h))))
    \<and> state (fst (snd (step closure (opt, h)))) p = state opt p
    \<and> snd (snd (step closure (opt, h))) p = closure_heap closure h p"
  using loop_visits_sparse [of pre "(state opt, closure_heap closure h)" p s grp post] assms
  by (simp add: step_outcome step_world)

theorem sparse_gradient_fails_witness:
  "visits (param_groups example_optimizer)
     = [(example_group, 1)] @ (example_group, 2) # [(example_group, 0)]
   \<and> \<not> is_sparse (grad (closure_heap (None :: nat closure option) example_sparse_heap 1))
   \<and> grad (closure_heap (None :: nat closure option) example_sparse_heap 2)
       = Some (Sparse [(0, 0.1)])
   \<and> fst (step (None :: nat closure option) (example_optimizer, example_sparse_heap))
       = Inl RuntimeError
   \<and> state (fst (snd (step (None :: nat closure option)
                        (example_optimizer, example_sparse_heap)))) 2 = None
   \<and> snd (snd (step (None :: nat closure option) (example_optimizer, example_sparse_heap))) 2
       = \<lparr>data = [1], grad = Some (Sparse [(0, 0.1)])\<rparr>
   \<and> stored_step (state (fst (snd (step (None :: nat closure option)
                        (example_optimizer, example_sparse_heap)))) 1) = 1
   \<and> state (fst (snd (step (None :: nat closure option)
                        (example_optimizer, example_sparse_heap)))) 0 = None"
proof -
  let ?c = "None :: nat closure option"
  let ?w = "(state example_optimizer, closure_heap ?c example_sparse_heap)"
  have h1: "visits (param_groups example_optimizer)
              = [(example_group, 1)] @ (example_group, 2) # [(example_group, 0)]"
    by (simp add: example_visits)
  have h2': "\<not> is_sparse (grad (closure_heap ?c example_sparse_heap 1))"
    by (simp add: closure_heap_def example_sparse_heap_def example_heap_def)
  then have h2: "\<forall>x\<in>set [(example_group, 1 :: nat)].
              \<not> is_sparse (grad (closure_heap ?c example_sparse_heap (snd x)))"
    by simp
  have h3: "grad (closure_heap ?c example_sparse_heap 2) = Some (Sparse [(0, 0.1)])"
    by (simp add: closure_heap_def example_sparse_heap_def)
  have h4: "closure_heap ?c example_sparse_heap 2
              = \<lparr>data = [1], grad = Some (Sparse [(0, 0.1)])\<rparr>"
    by (simp add: closure_heap_def example_sparse_heap_def)
  have s0: "state example_optimizer 2 = None"
    by (simp add: example_optimizer_def)
  have pre: "stored_step (fst (snd (loop_visits [(example_group, 1)] ?w)) 1) = 1
      \<and> fst (snd (loop_visits [(example_group, 1)] ?w)) 0 = None"
    by (simp add: update_param_def update_body_def example_group_def example_optimizer_def
          closure_heap_def example_sparse_heap_def example_heap_def stored_step_def Let_def)
  note r = sparse_gradient_fails [OF h1 h2 h3]
  from r have "fst (step ?c (example_optimizer, example_sparse_heap)) = Inl RuntimeError"
    and "state (fst (snd (step ?c (example_optimizer, example_sparse_heap)))) 2
          = state example_optimizer 2"
    and "snd (snd (step ?c (example_optimizer, example_sparse_heap))) 2
          = closure_heap ?c example_sparse_heap 2"
    by blast+
  moreover from r have "snd (step ?c (example_optimizer, example_sparse_heap)) =
      (example_optimizer\<lparr>state := fst (snd (loop_visits [(example_group, 1)] ?w))\<rparr>,
       snd (snd (loop_visits [(example_group, 1)] ?w)))"
    by blast
  then have "state (fst (snd (step ?c (example_optimizer, example_sparse_heap))))
          = fst (snd (loop_visits [(example_group, 1)] ?w))"
    by (simp del: loop_visits.simps)
  ultimately show ?thesis
    using h1 h2' h3 h4 s0 pre by (simp del: loop_visits.simps)
qed

section \<open>The update of one parameter\<close>

text \<open>The tensor operations of the loop body compute the formulas of the specification.\<close>

lemma moment_m: "add_inplace (mul_inplace m beta1) g (1 - beta1) = spec_m beta1 m g"
  by (simp add: add_inplace_def mul_inplace_def spec_m_def zip_map1 split_def mult.commute)

lemma moment_v: "addcmul_inplace (mul_inplace v beta2) g g (1 - beta2) = spec_v beta2 v g"
  by (simp add: addcmul_inplace_def mul_inplace_def spec_v_def zip_map1 zip_map2
        zip_same_conv_map split_def mult.commute power2_eq_square)

lemma hat_eq:
  "(if correct_bias then div_scalar x (1 - beta ^ t) else x) = spec_hat correct_bias beta t x"
  by (simp add: spec_hat_def div_scalar_def)

lemma delta_eq:
  "div_tensor (scalar_mul lr m_hat) (add_scalar (sqrt_tensor v_hat) eps)
     = spec_delta lr eps m_hat v_hat"
  by (simp add: div_tensor_def scalar_mul_def add_scalar_def sqrt_tensor_def spec_delta_def
        zip_map_map split_def)

lemma gradient_step_eq: "add_inplace x delta (- 1) = map2 (\<lambda>x d. x - d) x delta"
  by (simp add: add_inplace_def)

lemma decay_eq:
  "(if weight_decay \<noteq> 0 then add_inplace x x (- lr * weight_decay) else x)
     = spec_decay lr weight_decay x"
  by (simp add: add_inplace_def spec_decay_def zip_same_conv_map split_def)


lemma update_body_dense:
  assumes "grad prm = Some (Dense g)"
  shows "update_body grp s prm =
     Inr (Some \<lparr>state_step = Suc (state_step (state_or_new s prm)),
                state_m = spec_m (fst (group_betas grp)) (state_m (state_or_new s prm)) g,
                state_v = spec_v (snd (group_betas grp)) (state_v (state_or_new s prm)) g\<rparr>,
          prm\<lparr>data :=
            spec_decay (group_lr grp) (group_weight_decay grp)
              (map2 (\<lambda>x d. x - d) (data prm)
                 (spec_delta (group_lr grp) (group_eps grp)
                    (spec_hat (group_correct_bias grp) (fst (group_betas grp))
                       (Suc (state_step (state_or_new s prm)))
                       (spec_m (fst (group_betas grp)) (state_m (state_or_new s prm)) g))
                    (spec_hat (group_correct_bias grp) (snd (group_betas grp))
                       (Suc (state_step (state_or_new s prm)))
                       (spec_v (snd (group_betas grp)) (state_v (state_or_new s prm)) g))))\<rparr>)"
proof -
  obtain beta1 beta2 where b: "group_betas grp = (beta1, beta2)"
    by (cases "group_betas grp")
  have s0: "(case s of None \<Rightarrow> \<lparr>state_step = 0, state_m = zeros_like (data prm),
                                 state_v = zeros_like (data prm)\<rparr>
             | Some x \<Rightarrow> x) = state_or_new s prm"
    by (simp add: state_or_new_def)
  show ?thesis
    unfolding update_body_def Let_def b s0
    by (simp add: assms moment_m moment_v hat_eq delta_eq gradient_step_eq decay_eq
             del: power_Suc)
qed

lemma update_param_dense:
  assumes "grad (snd w p) = Some (Dense g)"
  shows "update_param grp p w =
     (Inr (), (fst w)(p := fst (projr (update_body grp (fst w p) (snd w p)))),
              (snd w)(p := snd (projr (update_body grp (fst w p) (snd w p)))))"
  by (simp add: update_param_def update_body_dense [OF assms])

lemma loop_visits_once:
  assumes "fst (loop_visits xs w) = Inr ()"
      and "(grp, p) \<in> set xs"
      and "count_list (map snd xs) p = 1"
  shows "update_body grp (fst w p) (snd w p)
           = Inr (fst (snd (loop_visits xs w)) p, snd (snd (loop_visits xs w)) p)"
  using assms
proof (induction xs arbitrary: w)
  case Nil
  then show ?case by simp
next
  case (Cons x xs)
  obtain out w' where u: "update_param (fst x) (snd x) w = (out, w')"
    by (cases "update_param (fst x) (snd x) w")
  from Cons.prems(1) u have out: "out = Inr ()" and ok: "fst (loop_visits xs w') = Inr ()"
    by (auto split: sum.splits)
  show ?case
  proof (cases "snd x = p")
    case True
    with Cons.prems(3) have "count_list (map snd xs) p = 0" by simp
    then have notin: "p \<notin> snd ` set xs"
      by (simp add: count_list_0_iff)
    with Cons.prems(2) have x: "x = (grp, p)" by force
    from u out x obtain s q where b: "update_body grp (fst w p) (snd w p) = Inr (s, q)"
      and w': "w' = ((fst w)(p := s), (snd w)(p := q))"
      by (auto simp: update_param_def split: sum.splits)
    from loop_visits_other [OF notin, of w'] w'
    have "fst (snd (loop_visits xs w')) p = s" "snd (snd (loop_visits xs w')) p = q"
      by simp_all
    with b u out show ?thesis by simp
  next
    case False
    with Cons.prems have mem: "(grp, p) \<in> set xs" and cnt: "count_list (map snd xs) p = 1"
      by auto
    from False update_param_other [of p "snd x" "fst x" w] u
    have same: "fst w' p = fst w p" "snd w' p = snd w p" by simp_all
    from Cons.IH [OF ok mem cnt] same u out show ?thesis by simp
  qed
qed

lemma step_once:
  assumes "fst (step closure (opt, h)) = Inr r"
      and "(grp, p) \<in> set (visits (param_groups opt))"
      and "visit_count (param_groups opt) p = 1"
  shows "update_body grp (state opt p) (closure_heap closure h p)
           = Inr (state (fst (snd (step closure (opt, h)))) p,
                  snd (snd (step closure (opt, h))) p)"
proof -
  let ?w = "(state opt, closure_heap closure h)"
  from assms(1) have "fst (loop_visits (visits (param_groups opt)) ?w) = Inr ()"
    by (auto simp: step_outcome split: sum.splits)
  from loop_visits_once [OF this assms(2)] assms(3) show ?thesis
    by (simp add: step_world visit_count_def)
qed

lemma sqrt_hundredth: "sqrt (1 / 100) = 1 / 10"
  by (rule real_sqrt_unique) (simp_all add: power2_eq_square)

lemma example_step_ok:
  "fst (step (None :: nat closure option) (example_optimizer, example_heap)) = Inr None"
proof -
  have "fst (loop_visits (visits (param_groups example_optimizer))
               (state example_optimizer, closure_heap (None :: nat closure option) example_heap))
          = Inr ()"
    by (simp add: loop_visits_ok example_visits closure_heap_def example_heap_def
             del: loop_visits.simps)
  then show ?thesis
    by (simp add: step_outcome del: loop_visits.simps)
qed

lemma example_visit_count: "visit_count (param_groups example_optimizer) 1 = 1"
  by (simp add: visit_count_def example_visits)

lemma example_group_fields:
  "group_lr example_group = 1 / 10" "group_betas example_group = (9 / 10, 999 / 1000)"
  "group_eps example_group = 1 / 10 ^ 6" "group_weight_decay example_group = 0"
  "group_correct_bias example_group = True"
  by (simp_all add: example_group_def)

lemma example_param:
  "closure_heap (None :: nat closure option) example_heap (Suc 0)
     = \<lparr>data = [1], grad = Some (Dense [1 / 10])\<rparr>"
  "state example_optimizer (Suc 0) = None"
  by (simp_all add: closure_heap_def example_heap_def example_optimizer_def)

text \<open>
  Claim C1. When \<open>step\<close> ends normally, a parameter that the loops visit once, in the group
  \<open>grp\<close>, and whose gradient is present and dense is updated as follows, from its own state
  entry (or the new one: step 0, zero moments), its own values and gradient and the
  hyperparameters of its group alone: the step count is incremented to \<open>t\<close>, the stored
  moments become \<open>m = beta1 * m + (1 - beta1) * grad\<close> and
  \<open>v = beta2 * v + (1 - beta2) * grad\<^sup>2\<close>, the update is
  \<open>delta = lr * m_hat / (sqrt v_hat + eps)\<close>, and the parameter becomes \<open>param - delta\<close>,
  followed by the decay of the group. No value of another parameter enters.
\<close>

theorem step_update_formulas:
  assumes "fst (step closure (opt, h)) = Inr r"
      and "(grp, p) \<in> set (visits (param_groups opt))"
      and "visit_count (param_groups opt) p = 1"
      and "grad (closure_heap closure h p) = Some (Dense g)"
  shows "let lr = group_lr grp; beta1 = fst (group_betas grp); beta2 = snd (group_betas grp);
             eps = group_eps grp; weight_decay = group_weight_decay grp;
             correct_bias = group_correct_bias grp;
             param = closure_heap closure h p;
             state0 = state_or_new (state opt p) param;
             t = state_step state0 + 1;
             m = spec_m beta1 (state_m state0) g;
             v = spec_v beta2 (state_v state0) g;
             m_hat = spec_hat correct_bias beta1 t m;
             v_hat = spec_hat correct_bias beta2 t v;
             delta = spec_delta lr eps m_hat v_hat
         in state (fst (snd (step closure (opt, h)))) p
              = Some \<lparr>state_step = t, state_m = m, state_v = v\<rparr>
          \<and> snd (snd (step closure (opt, h))) p
              = param\<lparr>data := spec_decay lr weight_decay (map2 (\<lambda>x d. x - d) (data param) delta)\<rparr>"
  using step_once [OF assms(1-3)] update_body_dense [OF assms(4), of grp "state opt p"]
  by (simp add: Let_def)

theorem step_update_formulas_witness:
  "fst (step (None :: nat closure option) (example_optimizer, example_heap)) = Inr None
   \<and> (example_group, 1) \<in> set (visits (param_groups example_optimizer))
   \<and> visit_count (param_groups example_optimizer) 1 = 1
   \<and> grad (closure_heap (None :: nat closure option) example_heap 1) = Some (Dense [1 / 10])
   \<and> state (fst (snd (step (None :: nat closure option) (example_optimizer, example_heap)))) 1
       = Some \<lparr>state_step = 1, state_m = [1 / 100], state_v = [1 / 100000]\<rparr>
   \<and> snd (snd (step (None :: nat closure option) (example_optimizer, example_heap))) 1
       = \<lparr>data = [90001 / 100001], grad = Some (Dense [1 / 10])\<rparr>"
proof -
  let ?c = "None :: nat closure option"
  have h2: "(example_group, 1) \<in> set (visits (param_groups example_optimizer))"
    by (simp add: example_visits)
  have h4: "grad (closure_heap ?c example_heap 1) = Some (Dense [1 / 10])"
    by (simp add: closure_heap_def example_heap_def)
  from step_update_formulas [OF example_step_ok h2 example_visit_count h4]
  have "state (fst (snd (step ?c (example_optimizer, example_heap)))) 1
       = Some \<lparr>state_step = 1, state_m = [1 / 100], state_v = [1 / 100000]\<rparr>
   \<and> snd (snd (step ?c (example_optimizer, example_heap))) 1
       = \<lparr>data = [90001 / 100001], grad = Some (Dense [1 / 10])\<rparr>"
    by (simp add: Let_def example_group_fields example_param state_or_new_def zeros_like_def
          spec_m_def spec_v_def spec_hat_def spec_delta_def spec_decay_def sqrt_hundredth
          power2_eq_square)
  with example_step_ok h2 example_visit_count h4 show ?thesis by simp
qed

lemma step_ok:
  assumes "\<forall>x\<in>set (visits (param_groups opt)).
             \<not> is_sparse (grad (closure_heap closure h (snd x)))"
  shows "fst (step closure (opt, h)) = Inr (map_option (\<lambda>c. fst (c h)) closure)"
proof -
  from assms
  have "fst (loop_visits (visits (param_groups opt)) (state opt, closure_heap closure h)) = Inr ()"
    by (simp add: loop_visits_ok)
  then show ?thesis
    by (simp add: step_outcome)
qed

lemma step_dense:
  assumes "fst (step closure (opt, h)) = Inr r"
      and "(grp, p) \<in> set (visits (param_groups opt))"
      and "visit_count (param_groups opt) p = 1"
      and "grad (closure_heap closure h p) = Some (Dense g)"
  shows "state (fst (snd (step closure (opt, h)))) p
           = Some \<lparr>state_step = Suc (state_step (state_or_new (state opt p) (closure_heap closure h p))),
                   state_m = spec_m (fst (group_betas grp))
                     (state_m (state_or_new (state opt p) (closure_heap closure h p))) g,
                   state_v = spec_v (snd (group_betas grp))
                     (state_v (state_or_new (state opt p) (closure_heap closure h p))) g\<rparr>
       \<and> snd (snd (step closure (opt, h))) p
           = (closure_heap closure h p)\<lparr>data :=
               spec_decay (group_lr grp) (group_weight_decay grp)
                 (map2 (\<lambda>x d. x - d) (data (closure_heap closure h p))
                    (spec_update grp (state_or_new (state opt p) (closure_heap closure h p)) g))\<rparr>"
  using step_once [OF assms(1-3)] update_body_dense [OF assms(4), of grp "state opt p"]
  by (simp add: spec_update_def Let_def)

lemma example_raw_visits:
  "visits (param_groups example_raw_optimizer)
     = [(example_raw_group, 1), (example_raw_group, 2), (example_raw_group, 0)]"
  by (simp add: visits_def example_raw_optimizer_def example_raw_group_def example_group_def)

lemma example_raw_group_fields:
  "group_lr example_raw_group = 1 / 10" "group_betas example_raw_group = (9 / 10, 999 / 1000)"
  "group_eps example_raw_group = 1 / 10 ^ 6" "group_weight_decay example_raw_group = 0"
  "group_correct_bias example_raw_group = False"
  by (simp_all add: example_raw_group_def example_group_def)

lemma example_zero_param:
  "closure_heap (None :: nat closure option) example_zero_heap (Suc 0)
     = \<lparr>data = [1], grad = Some (Dense [0])\<rparr>"
  "state example_raw_optimizer (Suc 0) = None"
  by (simp_all add: closure_heap_def example_zero_heap_def example_raw_optimizer_def)

lemma example_decay_visits:
  "visits (param_groups example_decay_optimizer)
     = [(example_group\<lparr>group_weight_decay := 1 / 100\<rparr>, 1),
        (example_group\<lparr>group_weight_decay := 1 / 100\<rparr>, 2),
        (example_group\<lparr>group_weight_decay := 1 / 100\<rparr>, 0)]"
  by (simp add: visits_def example_decay_optimizer_def example_group_def)

lemma example_decay_step_ok:
  "fst (step (None :: nat closure option) (example_decay_optimizer, example_heap)) = Inr None"
proof -
  have "fst (loop_visits (visits (param_groups example_decay_optimizer))
               (state example_decay_optimizer,
                closure_heap (None :: nat closure option) example_heap))
          = Inr ()"
    by (simp add: loop_visits_ok example_decay_visits closure_heap_def example_heap_def
             del: loop_visits.simps)
  then show ?thesis
    by (simp add: step_outcome del: loop_visits.simps)
qed

section \<open>The decoupled weight decay\<close>

text \<open>
  Claim C2. For a parameter updated by \<open>step\<close> (the call ends normally, the loops visit the
  parameter once, its gradient is dense) in a group whose weight decay is not 0, the decay
  \<open>param - lr * weight_decay * param\<close> is applied to the value after the gradient step of the
  same update: the result is \<open>(param - delta) * (1 - lr * weight_decay)\<close>. When the weight
  decay is 0 the result is \<open>param - delta\<close>, with no decay.
\<close>

theorem weight_decay_after_step:
  assumes "fst (step closure (opt, h)) = Inr r"
      and "(grp, p) \<in> set (visits (param_groups opt))"
      and "visit_count (param_groups opt) p = 1"
      and "grad (closure_heap closure h p) = Some (Dense g)"
  shows "let lr = group_lr grp; weight_decay = group_weight_decay grp;
             param = closure_heap closure h p;
             delta = spec_update grp (state_or_new (state opt p) param) g;
             stepped = map2 (\<lambda>x d. x - d) (data param) delta;
             result = data (snd (snd (step closure (opt, h))) p)
         in (weight_decay \<noteq> 0 \<longrightarrow>
               result = map (\<lambda>x. x - lr * weight_decay * x) stepped
               \<and> result = map (\<lambda>x. x * (1 - lr * weight_decay)) stepped)
          \<and> (weight_decay = 0 \<longrightarrow> result = stepped)"
  using step_dense [OF assms]
  by (simp add: Let_def spec_decay_def algebra_simps)


theorem weight_decay_after_step_witness:
  "fst (step (None :: nat closure option) (example_decay_optimizer, example_heap)) = Inr None
   \<and> (example_group\<lparr>group_weight_decay := 1 / 100\<rparr>, 1)
        \<in> set (visits (param_groups example_decay_optimizer))
   \<and> visit_count (param_groups example_decay_optimizer) 1 = 1
   \<and> grad (closure_heap (None :: nat closure option) example_heap 1) = Some (Dense [1 / 10])
   \<and> group_weight_decay (example_group\<lparr>group_weight_decay := 1 / 100\<rparr>) \<noteq> 0
   \<and> data (snd (snd (step (None :: nat closure option) (example_decay_optimizer, example_heap))) 1)
       = map (\<lambda>x. x * (1 - 1 / 10 * (1 / 100))) [90001 / 100001]
   \<and> data (snd (snd (step (None :: nat closure option) (example_decay_optimizer, example_heap))) 1)
       = [89910999 / 100001000]"
proof -
  let ?c = "None :: nat closure option"
  let ?g = "example_group\<lparr>group_weight_decay := 1 / 100\<rparr>"
  have h2: "(?g, 1) \<in> set (visits (param_groups example_decay_optimizer))"
    by (simp add: example_decay_visits)
  have h3: "visit_count (param_groups example_decay_optimizer) 1 = 1"
    by (simp add: visit_count_def example_decay_visits)
  have h4: "grad (closure_heap ?c example_heap 1) = Some (Dense [1 / 10])"
    by (simp add: closure_heap_def example_heap_def)
  have s0: "state example_decay_optimizer (Suc 0) = None"
    by (simp add: example_decay_optimizer_def)
  from weight_decay_after_step [OF example_decay_step_ok h2 h3 h4]
  have "data (snd (snd (step ?c (example_decay_optimizer, example_heap))) 1)
          = [89910999 / 100001000]"
    by (simp add: Let_def example_group_fields example_param s0 state_or_new_def zeros_like_def
          spec_update_def spec_m_def spec_v_def spec_hat_def spec_delta_def sqrt_hundredth
          power2_eq_square)
  with example_decay_step_ok h2 h3 h4 show ?thesis
    by (simp add: example_group_fields)
qed

section \<open>The bias correction\<close>

lemma sqrt_gap: "sqrt (1 / 100000) \<noteq> 99991 / 10000000"
proof
  assume a: "sqrt (1 / 100000) = 99991 / 10000000"
  have "(sqrt (1 / 100000))\<^sup>2 = (1 / 100000 :: real)"
    by (rule real_sqrt_pow2) simp
  then have "(99991 / 10000000 :: real)\<^sup>2 = 1 / 100000"
    by (simp only: a)
  then show False by (simp add: power2_eq_square)
qed

lemma example_deltas_differ:
  "spec_update example_group (state_or_new None \<lparr>data = [1], grad = Some (Dense [1 / 10])\<rparr>)
      [1 / 10]
   \<noteq> spec_update example_raw_group
      (state_or_new None \<lparr>data = [1], grad = Some (Dense [1 / 10])\<rparr>) [1 / 10]"
proof -
  have pos: "sqrt (1 / 100000) + 1 / 1000000 > 0"
    by (rule add_nonneg_pos) simp_all
  have "(1 / 1000 :: real) / (sqrt (1 / 100000) + 1 / 1000000) \<noteq> 10000 / 100001"
  proof
    assume "(1 / 1000 :: real) / (sqrt (1 / 100000) + 1 / 1000000) = 10000 / 100001"
    with pos have "sqrt (1 / 100000) = 99991 / 10000000"
      by (simp add: field_simps)
    with sqrt_gap show False by simp
  qed
  then show ?thesis
    by (simp add: example_group_fields example_raw_group_fields state_or_new_def zeros_like_def
          spec_update_def spec_m_def spec_v_def spec_hat_def spec_delta_def sqrt_hundredth
          power2_eq_square Let_def)
qed

text \<open>
  Claim C3, as stated, says that the two settings of \<open>correct_bias\<close> produce different
  updates for the same inputs. They do not always: on the example with a zero gradient and
  no state, both settings give the update 0 and leave the parameter at 1.
\<close>

theorem bias_correction_same_delta:
  "snd (snd (step (None :: nat closure option) (example_optimizer, example_zero_heap))) 1
     = \<lparr>data = [1], grad = Some (Dense [0])\<rparr>
   \<and> snd (snd (step (None :: nat closure option) (example_raw_optimizer, example_zero_heap))) 1
     = \<lparr>data = [1], grad = Some (Dense [0])\<rparr>
   \<and> spec_update example_group
         (state_or_new None \<lparr>data = [1], grad = Some (Dense [0])\<rparr>) [0] = [0]
   \<and> spec_update example_raw_group
         (state_or_new None \<lparr>data = [1], grad = Some (Dense [0])\<rparr>) [0] = [0]
   \<and> group_correct_bias example_group \<and> \<not> group_correct_bias example_raw_group
   \<and> example_raw_group = example_group\<lparr>group_correct_bias := False\<rparr>
   \<and> param_groups example_optimizer = [example_group]
   \<and> param_groups example_raw_optimizer = [example_raw_group]
   \<and> state example_optimizer = state example_raw_optimizer"
proof -
  let ?c = "None :: nat closure option"
  have g: "grad (closure_heap ?c example_zero_heap 1) = Some (Dense [0])"
    by (simp add: closure_heap_def example_zero_heap_def)
  have ok1: "fst (step ?c (example_optimizer, example_zero_heap)) = Inr None"
    using step_ok [of example_optimizer ?c example_zero_heap]
    by (simp add: example_visits closure_heap_def example_zero_heap_def example_heap_def)
  have ok2: "fst (step ?c (example_raw_optimizer, example_zero_heap)) = Inr None"
    using step_ok [of example_raw_optimizer ?c example_zero_heap]
    by (simp add: example_raw_visits closure_heap_def example_zero_heap_def example_heap_def)
  have v1: "(example_group, 1) \<in> set (visits (param_groups example_optimizer))"
    by (simp add: example_visits)
  have v2: "(example_raw_group, 1) \<in> set (visits (param_groups example_raw_optimizer))"
    by (simp add: example_raw_visits)
  have c2: "visit_count (param_groups example_raw_optimizer) 1 = 1"
    by (simp add: visit_count_def example_raw_visits)
  have r1: "snd (snd (step ?c (example_optimizer, example_zero_heap))) 1
     = \<lparr>data = [1], grad = Some (Dense [0])\<rparr>"
    using step_dense [OF ok1 v1 example_visit_count g]
    by (simp add: example_group_fields example_zero_param example_param state_or_new_def
          zeros_like_def spec_update_def spec_m_def spec_v_def spec_hat_def spec_delta_def
          spec_decay_def Let_def)
  have r2: "snd (snd (step ?c (example_raw_optimizer, example_zero_heap))) 1
     = \<lparr>data = [1], grad = Some (Dense [0])\<rparr>"
    using step_dense [OF ok2 v2 c2 g]
    by (simp add: example_raw_group_fields example_zero_param state_or_new_def
          zeros_like_def spec_update_def spec_m_def spec_v_def spec_hat_def spec_delta_def
          spec_decay_def Let_def)
  have d: "spec_update example_group
         (state_or_new None \<lparr>data = [1], grad = Some (Dense [0])\<rparr>) [0] = [0]
     \<and> spec_update example_raw_group
         (state_or_new None \<lparr>data = [1], grad = Some (Dense [0])\<rparr>) [0] = [0]"
    by (simp add: example_group_fields example_raw_group_fields state_or_new_def zeros_like_def
          spec_update_def spec_m_def spec_v_def spec_hat_def spec_delta_def Let_def)
  show ?thesis
    using r1 r2 d
    by (simp add: example_group_fields example_raw_group_fields example_raw_group_def
          example_optimizer_def example_raw_optimizer_def)
qed


text \<open>
  Claim C3, amended. For a parameter updated by \<open>step\<close>, with \<open>t\<close> the stored step count
  after the increment: if \<open>correct_bias\<close> is set the update is computed from
  \<open>m / (1 - beta1 ^ t)\<close> and \<open>v / (1 - beta2 ^ t)\<close>, the power being that of scalars; if it
  is not set the update is computed from the raw moments \<open>m\<close> and \<open>v\<close>. The two settings
  produce different updates on some inputs, such as the example of the specification (the
  value 1.0, the gradient 0.1, the learning rate 0.1, the betas 0.9 and 0.999, the epsilon
  1e-6, first step), though not on all.
\<close>

theorem bias_correction_formulas:
  assumes "fst (step closure (opt, h)) = Inr r"
      and "(grp, p) \<in> set (visits (param_groups opt))"
      and "visit_count (param_groups opt) p = 1"
      and "grad (closure_heap closure h p) = Some (Dense g)"
  shows "let lr = group_lr grp; beta1 = fst (group_betas grp); beta2 = snd (group_betas grp);
             eps = group_eps grp; weight_decay = group_weight_decay grp;
             param = closure_heap closure h p;
             state0 = state_or_new (state opt p) param;
             t = stored_step (state (fst (snd (step closure (opt, h)))) p);
             m = spec_m beta1 (state_m state0) g;
             v = spec_v beta2 (state_v state0) g;
             result = data (snd (snd (step closure (opt, h))) p)
         in t = state_step state0 + 1
          \<and> (group_correct_bias grp \<longrightarrow>
               result = spec_decay lr weight_decay (map2 (\<lambda>x d. x - d) (data param)
                 (spec_delta lr eps (map (\<lambda>x. x / (1 - beta1 ^ t)) m)
                                    (map (\<lambda>x. x / (1 - beta2 ^ t)) v))))
          \<and> (\<not> group_correct_bias grp \<longrightarrow>
               result = spec_decay lr weight_decay (map2 (\<lambda>x d. x - d) (data param)
                 (spec_delta lr eps m v)))
          \<and> spec_update example_group
               (state_or_new None \<lparr>data = [1], grad = Some (Dense [1 / 10])\<rparr>) [1 / 10]
             \<noteq> spec_update (example_group\<lparr>group_correct_bias := False\<rparr>)
               (state_or_new None \<lparr>data = [1], grad = Some (Dense [1 / 10])\<rparr>) [1 / 10]"
  using step_dense [OF assms] example_deltas_differ
  by (simp add: Let_def spec_update_def spec_hat_def stored_step_def example_raw_group_def)


theorem bias_correction_formulas_witness:
  "fst (step (None :: nat closure option) (example_optimizer, example_heap)) = Inr None
   \<and> (example_group, 1) \<in> set (visits (param_groups example_optimizer))
   \<and> visit_count (param_groups example_optimizer) 1 = 1
   \<and> grad (closure_heap (None :: nat closure option) example_heap 1) = Some (Dense [1 / 10])
   \<and> group_correct_bias example_group
   \<and> stored_step (state (fst (snd (step (None :: nat closure option)
                                      (example_optimizer, example_heap)))) 1) = 1
   \<and> data (snd (snd (step (None :: nat closure option) (example_optimizer, example_heap))) 1)
       = map2 (\<lambda>x d. x - d) [1]
           (spec_delta (1 / 10) (1 / 10 ^ 6) (map (\<lambda>x. x / (1 - (9 / 10) ^ 1)) [1 / 100])
              (map (\<lambda>x. x / (1 - (999 / 1000) ^ 1)) [1 / 100000]))"
proof -
  let ?c = "None :: nat closure option"
  have h2: "(example_group, 1) \<in> set (visits (param_groups example_optimizer))"
    by (simp add: example_visits)
  have h4: "grad (closure_heap ?c example_heap 1) = Some (Dense [1 / 10])"
    by (simp add: closure_heap_def example_heap_def)
  from bias_correction_formulas [OF example_step_ok h2 example_visit_count h4]
  have "stored_step (state (fst (snd (step ?c (example_optimizer, example_heap)))) 1) = 1
     \<and> data (snd (snd (step ?c (example_optimizer, example_heap))) 1)
       = map2 (\<lambda>x d. x - d) [1]
           (spec_delta (1 / 10) (1 / 10 ^ 6) (map (\<lambda>x. x / (1 - (9 / 10) ^ 1)) [1 / 100])
              (map (\<lambda>x. x / (1 - (999 / 1000) ^ 1)) [1 / 100000]))"
    by (simp add: Let_def example_group_fields example_param state_or_new_def zeros_like_def
          spec_m_def spec_v_def spec_decay_def power2_eq_square)
  with example_step_ok h2 example_visit_count h4 show ?thesis
    by (simp add: example_group_fields)
qed

section \<open>The step counter\<close>

lemma state_or_new_step: "state_step (state_or_new s prm) = stored_step s"
  by (simp add: state_or_new_def stored_step_def split: option.splits)

lemma update_param_count:
  assumes "fst (update_param grp q w) = Inr ()" and "is_dense (grad (snd w p))"
  shows "stored_step (fst (snd (update_param grp q w)) p)
           = stored_step (fst w p) + (if q = p then 1 else 0)"
proof (cases "q = p")
  case True
  from assms(2) obtain g where "grad (snd w p) = Some (Dense g)"
    by (cases "grad (snd w p)" rule: is_dense.cases) auto
  from update_param_dense [OF this, of grp] update_body_dense [OF this, of grp "fst w p"] True
  show ?thesis
    by (simp add: stored_step_def state_or_new_step)
next
  case False
  then show ?thesis
    using update_param_other [of p q grp w] by simp
qed

lemma loop_visits_count:
  assumes "fst (loop_visits xs w) = Inr ()" and "is_dense (grad (snd w p))"
  shows "stored_step (fst (snd (loop_visits xs w)) p)
           = stored_step (fst w p) + count_list (map snd xs) p"
  using assms
proof (induction xs arbitrary: w)
  case Nil
  then show ?case by simp
next
  case (Cons x xs)
  obtain out w' where u: "update_param (fst x) (snd x) w = (out, w')"
    by (cases "update_param (fst x) (snd x) w")
  from Cons.prems(1) u have out: "out = Inr ()" and ok: "fst (loop_visits xs w') = Inr ()"
    by (auto split: sum.splits)
  have g: "is_dense (grad (snd w' p))"
    using update_param_grad [of "fst x" "snd x" w p] u Cons.prems(2) by simp
  have "stored_step (fst w' p) = stored_step (fst w p) + (if snd x = p then 1 else 0)"
    using update_param_count [of "fst x" "snd x" w p] u out Cons.prems(2) by simp
  with Cons.IH [OF ok g] u out show ?case by simp
qed

lemma step_count:
  assumes "fst (step closure (opt, h)) = Inr r" and "is_dense (grad (closure_heap closure h p))"
  shows "stored_step (state (fst (snd (step closure (opt, h)))) p)
           = stored_step (state opt p) + visit_count (param_groups opt) p"
proof -
  let ?w = "(state opt, closure_heap closure h)"
  from assms(1) have "fst (loop_visits (visits (param_groups opt)) ?w) = Inr ()"
    by (auto simp: step_outcome split: sum.splits)
  from loop_visits_count [OF this, of p] assms(2) show ?thesis
    by (simp add: step_world visit_count_def)
qed

lemma step_frame:
  "param_groups (fst (snd (step closure (opt, h)))) = param_groups opt
   \<and> grad (snd (snd (step closure (opt, h))) q) = grad (closure_heap closure h q)"
  using loop_visits_grad [of "visits (param_groups opt)" "(state opt, closure_heap closure h)" q]
  by (simp add: step_world)

lemma repeat_step_count:
  assumes "fst (repeat_step cs (opt, h)) = Inr ()"
      and "is_dense (grad (h p))"
      and "\<forall>c\<in>set cs. \<forall>h'. is_dense (grad (h' p)) \<longrightarrow> is_dense (grad (closure_heap c h' p))"
  shows "stored_step (state (fst (snd (repeat_step cs (opt, h)))) p)
           = stored_step (state opt p) + length cs * visit_count (param_groups opt) p"
  using assms
proof (induction cs arbitrary: opt h)
  case Nil
  then show ?case by simp
next
  case (Cons c cs)
  obtain out opt' h' where s: "step c (opt, h) = (out, opt', h')"
    by (cases "step c (opt, h)")
  from Cons.prems(1) s obtain r where out: "out = Inr r"
    and ok: "fst (repeat_step cs (opt', h')) = Inr ()"
    by (auto split: sum.splits)
  from Cons.prems(2,3) have d: "is_dense (grad (closure_heap c h p))" by simp
  from step_frame [of c opt h p] s
  have pg: "param_groups opt' = param_groups opt"
    and g: "grad (h' p) = grad (closure_heap c h p)" by simp_all
  from step_count [of c opt h r p] s out d
  have c1: "stored_step (state opt' p) = stored_step (state opt p) + visit_count (param_groups opt) p"
    by simp
  from Cons.prems(3)
  have cl: "\<forall>c\<in>set cs. \<forall>h'. is_dense (grad (h' p)) \<longrightarrow> is_dense (grad (closure_heap c h' p))"
    by simp
  from g d have d': "is_dense (grad (h' p))" by simp
  from Cons.IH [of opt' h'] ok d' cl c1 pg s out show ?case
    by (simp add: algebra_simps)
qed

lemma repeat_step_ok:
  assumes "\<forall>q. \<not> is_sparse (grad (h q))"
      and "\<forall>c\<in>set cs. \<forall>h'. (\<forall>q. \<not> is_sparse (grad (h' q)))
              \<longrightarrow> (\<forall>q. \<not> is_sparse (grad (closure_heap c h' q)))"
  shows "fst (repeat_step cs (opt, h)) = Inr ()"
  using assms
proof (induction cs arbitrary: opt h)
  case Nil
  then show ?case by simp
next
  case (Cons c cs)
  obtain out opt' h' where s: "step c (opt, h) = (out, opt', h')"
    by (cases "step c (opt, h)")
  from Cons.prems have ns: "\<forall>q. \<not> is_sparse (grad (closure_heap c h q))" by simp
  then have "fst (step c (opt, h)) = Inr (map_option (\<lambda>c. fst (c h)) c)"
    by (intro step_ok) simp
  with s have out: "out = Inr (map_option (\<lambda>c. fst (c h)) c)" by simp
  from step_frame [of c opt h] s ns have ns': "\<forall>q. \<not> is_sparse (grad (h' q))" by simp
  from Cons.prems(2)
  have cl: "\<forall>c\<in>set cs. \<forall>h'. (\<forall>q. \<not> is_sparse (grad (h' q)))
              \<longrightarrow> (\<forall>q. \<not> is_sparse (grad (closure_heap c h' q)))"
    by simp
  from Cons.IH [OF ns' cl, of opt'] s out show ?case by simp
qed

text \<open>
  Claim C4. The state of a parameter is created on its first update with a present dense
  gradient, and not before: a call that visits the parameter once and finds no state makes
  the state with the step count 1 and with the moments of an update that starts from zeros
  of the shape of the parameter's values, while a call that finds no gradient and no state
  leaves none. Every update adds exactly 1 to the stored step count: a call of \<open>step\<close> that
  ends normally adds the number of visits of the parameter, and \<open>N\<close> consecutive calls that
  end normally, the gradient being dense each time, add \<open>N\<close> times that number. So for a
  parameter visited once per call and without state at the start the count is exactly \<open>N\<close>;
  it never resets.
\<close>

theorem step_count_exact:
  "(fst (step closure (opt, h)) = Inr r \<and> (grp, p) \<in> set (visits (param_groups opt))
      \<and> visit_count (param_groups opt) p = 1
      \<and> grad (closure_heap closure h p) = Some (Dense g) \<and> state opt p = None \<longrightarrow>
      state (fst (snd (step closure (opt, h)))) p
        = Some \<lparr>state_step = 1,
                state_m = spec_m (fst (group_betas grp))
                            (zeros_like (data (closure_heap closure h p))) g,
                state_v = spec_v (snd (group_betas grp))
                            (zeros_like (data (closure_heap closure h p))) g\<rparr>)
   \<and> (grad (closure_heap closure h p) = None \<and> state opt p = None \<longrightarrow>
      state (fst (snd (step closure (opt, h)))) p = None)
   \<and> (fst (step closure (opt, h)) = Inr r \<and> is_dense (grad (closure_heap closure h p)) \<longrightarrow>
      stored_step (state (fst (snd (step closure (opt, h)))) p)
        = stored_step (state opt p) + visit_count (param_groups opt) p)
   \<and> (fst (repeat_step cs (opt, h)) = Inr () \<and> is_dense (grad (h p))
      \<and> (\<forall>c\<in>set cs. \<forall>h'. is_dense (grad (h' p)) \<longrightarrow> is_dense (grad (closure_heap c h' p)))
      \<longrightarrow>
      stored_step (state (fst (snd (repeat_step cs (opt, h)))) p)
        = stored_step (state opt p) + length cs * visit_count (param_groups opt) p)"
proof (intro conjI impI)
  assume a: "fst (step closure (opt, h)) = Inr r \<and> (grp, p) \<in> set (visits (param_groups opt))
      \<and> visit_count (param_groups opt) p = 1
      \<and> grad (closure_heap closure h p) = Some (Dense g) \<and> state opt p = None"
  then have "fst (step closure (opt, h)) = Inr r" "(grp, p) \<in> set (visits (param_groups opt))"
    "visit_count (param_groups opt) p = 1" "grad (closure_heap closure h p) = Some (Dense g)"
    by simp_all
  from step_dense [OF this] a
  show "state (fst (snd (step closure (opt, h)))) p
        = Some \<lparr>state_step = 1,
                state_m = spec_m (fst (group_betas grp))
                            (zeros_like (data (closure_heap closure h p))) g,
                state_v = spec_v (snd (group_betas grp))
                            (zeros_like (data (closure_heap closure h p))) g\<rparr>"
    by (simp add: state_or_new_def)
next
  assume "grad (closure_heap closure h p) = None \<and> state opt p = None"
  with step_absent [of closure h p opt]
  show "state (fst (snd (step closure (opt, h)))) p = None" by simp
next
  assume "fst (step closure (opt, h)) = Inr r \<and> is_dense (grad (closure_heap closure h p))"
  with step_count [of closure opt h r p]
  show "stored_step (state (fst (snd (step closure (opt, h)))) p)
        = stored_step (state opt p) + visit_count (param_groups opt) p" by simp
next
  assume "fst (repeat_step cs (opt, h)) = Inr () \<and> is_dense (grad (h p))
      \<and> (\<forall>c\<in>set cs. \<forall>h'. is_dense (grad (h' p)) \<longrightarrow> is_dense (grad (closure_heap c h' p)))"
  with repeat_step_count [of cs opt h p]
  show "stored_step (state (fst (snd (repeat_step cs (opt, h)))) p)
        = stored_step (state opt p) + length cs * visit_count (param_groups opt) p" by simp
qed

theorem step_count_exact_witness:
  "fst (repeat_step [None, Some example_closure, None] (example_optimizer, example_heap)) = Inr ()
   \<and> is_dense (grad (example_heap 1))
   \<and> (\<forall>h'. is_dense (grad (closure_heap (None :: nat closure option) h' 1)) = is_dense (grad (h' 1)))
   \<and> (\<forall>h'. is_dense (grad (closure_heap (Some example_closure) h' 1)) = is_dense (grad (h' 1)))
   \<and> state example_optimizer 1 = None
   \<and> visit_count (param_groups example_optimizer) 1 = 1
   \<and> stored_step (state (fst (snd (repeat_step [None, Some example_closure, None]
                                      (example_optimizer, example_heap)))) 1) = 3
   \<and> fst (step (None :: nat closure option) (example_optimizer, example_heap)) = Inr None
   \<and> grad (closure_heap (None :: nat closure option) example_heap 1) = Some (Dense [1 / 10])
   \<and> state (fst (snd (step (None :: nat closure option) (example_optimizer, example_heap)))) 1
       = Some \<lparr>state_step = 1, state_m = [1 / 100], state_v = [1 / 100000]\<rparr>
   \<and> grad (closure_heap (None :: nat closure option) example_heap 0) = None
   \<and> state (fst (snd (step (None :: nat closure option) (example_optimizer, example_heap)))) 0
       = None"
proof -
  let ?c = "None :: nat closure option"
  let ?cs = "[None, Some example_closure, None]"
  have ok: "fst (repeat_step ?cs (example_optimizer, example_heap)) = Inr ()"
    by (rule repeat_step_ok)
       (auto simp: example_heap_def closure_heap_def example_closure_def)
  have d: "is_dense (grad (example_heap 1))"
    by (simp add: example_heap_def)
  have c1: "\<forall>h'. is_dense (grad (closure_heap ?c h' 1)) = is_dense (grad (h' 1))"
    and c2: "\<forall>h'. is_dense (grad (closure_heap (Some example_closure) h' 1))
               = is_dense (grad (h' 1))"
    by (simp_all add: closure_heap_def example_closure_def)
  then have cl: "\<forall>c\<in>set ?cs. \<forall>h'. is_dense (grad (h' 1))
                   \<longrightarrow> is_dense (grad (closure_heap c h' 1))"
    by simp
  have s0: "state example_optimizer 1 = None" "state example_optimizer 0 = None"
    by (simp_all add: example_optimizer_def)
  have h2: "(example_group, 1) \<in> set (visits (param_groups example_optimizer))"
    by (simp add: example_visits)
  have h4: "grad (closure_heap ?c example_heap 1) = Some (Dense [1 / 10])"
    and h5: "grad (closure_heap ?c example_heap 0) = None"
    by (simp_all add: closure_heap_def example_heap_def)
  note t = step_count_exact [of ?c example_optimizer example_heap None example_group 1
             "[1 / 10]" ?cs]
  from t ok d cl
  have r1: "stored_step (state (fst (snd (repeat_step ?cs (example_optimizer, example_heap)))) 1)
              = stored_step (state example_optimizer 1)
                + length ?cs * visit_count (param_groups example_optimizer) 1"
    by blast
  from t example_step_ok h2 example_visit_count h4 s0(1)
  have r2: "state (fst (snd (step ?c (example_optimizer, example_heap)))) 1
        = Some \<lparr>state_step = 1,
                state_m = spec_m (fst (group_betas example_group))
                            (zeros_like (data (closure_heap ?c example_heap 1))) [1 / 10],
                state_v = spec_v (snd (group_betas example_group))
                            (zeros_like (data (closure_heap ?c example_heap 1))) [1 / 10]\<rparr>"
    by blast
  have r3: "state (fst (snd (step ?c (example_optimizer, example_heap)))) 0 = None"
    using step_count_exact [of ?c example_optimizer example_heap None example_group 0
             "[1 / 10]" ?cs] h5 s0(2) by blast
  from r2 have r2': "state (fst (snd (step ?c (example_optimizer, example_heap)))) 1
       = Some \<lparr>state_step = 1, state_m = [1 / 100], state_v = [1 / 100000]\<rparr>"
    using example_param(1)
    by (simp add: example_group_fields zeros_like_def spec_m_def spec_v_def power2_eq_square)
  from r1 have r1': "stored_step (state (fst (snd (repeat_step ?cs
                        (example_optimizer, example_heap)))) 1) = 3"
    unfolding example_visit_count s0 by (simp add: stored_step_def del: repeat_step.simps)
  from ok d c1 c2 s0 example_visit_count r1' example_step_ok h4 r2' h5 r3
  show ?thesis by simp
qed

section \<open>The stored moments\<close>

lemma state_or_new_shape:
  "length (data prm') = length (data prm) \<Longrightarrow> state_or_new s prm' = state_or_new s prm"
  by (simp add: state_or_new_def zeros_like_def split: option.splits)

lemma update_body_correct_bias:
  assumes "grad prm' = grad prm" and "length (data prm') = length (data prm)"
  shows "(\<forall>e. update_body (grp\<lparr>group_correct_bias := b\<rparr>) s prm' = Inl e
              \<longleftrightarrow> update_body grp s prm = Inl e)
       \<and> (\<forall>s1 q1 s2 q2. update_body (grp\<lparr>group_correct_bias := b\<rparr>) s prm' = Inr (s1, q1)
              \<and> update_body grp s prm = Inr (s2, q2)
              \<longrightarrow> s1 = s2 \<and> grad q1 = grad q2 \<and> length (data q1) = length (data q2))"
proof (cases "grad prm")
  case None
  with assms show ?thesis
    by (simp add: update_body_def split: prod.splits)
next
  case (Some gr)
  show ?thesis
  proof (cases gr)
    case (Sparse x)
    with Some assms show ?thesis
      by (simp add: update_body_def split: prod.splits)
  next
    case (Dense g)
    with Some assms have g': "grad prm' = Some (Dense g)" and g: "grad prm = Some (Dense g)"
      by simp_all
    show ?thesis
      using assms
      by (simp add: update_body_dense [OF g'] update_body_dense [OF g]
            state_or_new_shape [OF assms(2)] spec_decay_def spec_delta_def spec_hat_def)
  qed
qed


lemma update_param_correct_bias:
  assumes "same_shape h' h"
  shows "fst (update_param (grp\<lparr>group_correct_bias := b\<rparr>) p (st, h'))
           = fst (update_param grp p (st, h))
       \<and> fst (snd (update_param (grp\<lparr>group_correct_bias := b\<rparr>) p (st, h')))
           = fst (snd (update_param grp p (st, h)))
       \<and> same_shape (snd (snd (update_param (grp\<lparr>group_correct_bias := b\<rparr>) p (st, h'))))
            (snd (snd (update_param grp p (st, h))))"
proof -
  from assms have g: "grad (h' p) = grad (h p)" and l: "length (data (h' p)) = length (data (h p))"
    by (simp_all add: same_shape_def)
  note b = update_body_correct_bias [OF g l, where grp = grp and b = b and s = "st p"]
  show ?thesis
  proof (cases "update_body grp (st p) (h p)")
    case (Inl e)
    with b have "update_body (grp\<lparr>group_correct_bias := b\<rparr>) (st p) (h' p) = Inl e"
      by blast
    with Inl assms show ?thesis
      by (simp add: update_param_def)
  next
    case (Inr r)
    obtain s2 q2 where r: "r = (s2, q2)" by (cases r)
    from b Inr obtain r' where
      r': "update_body (grp\<lparr>group_correct_bias := b\<rparr>) (st p) (h' p) = Inr r'"
      by (cases "update_body (grp\<lparr>group_correct_bias := b\<rparr>) (st p) (h' p)") auto
    obtain s1 q1 where r1: "r' = (s1, q1)" by (cases r')
    from b r' r1 Inr r
    have "s1 = s2 \<and> grad q1 = grad q2 \<and> length (data q1) = length (data q2)"
      by blast
    with Inr r r' r1 assms show ?thesis
      by (simp add: update_param_def same_shape_def)
  qed
qed

lemma loop_visits_correct_bias:
  assumes "same_shape h' h"
  shows "fst (loop_visits (map (\<lambda>x. ((fst x)\<lparr>group_correct_bias := f (fst x)\<rparr>, snd x)) xs)
                (st, h'))
           = fst (loop_visits xs (st, h))
       \<and> fst (snd (loop_visits
                (map (\<lambda>x. ((fst x)\<lparr>group_correct_bias := f (fst x)\<rparr>, snd x)) xs) (st, h')))
           = fst (snd (loop_visits xs (st, h)))"
  using assms
proof (induction xs arbitrary: st h' h)
  case Nil
  show ?case by simp
next
  case (Cons x xs)
  let ?g' = "(fst x)\<lparr>group_correct_bias := f (fst x)\<rparr>"
  obtain out st1 h1 where u: "update_param (fst x) (snd x) (st, h) = (out, st1, h1)"
    by (cases "update_param (fst x) (snd x) (st, h)")
  obtain out' st1' h1' where u': "update_param ?g' (snd x) (st, h') = (out', st1', h1')"
    by (cases "update_param ?g' (snd x) (st, h')")
  from update_param_correct_bias [OF Cons.prems, where grp = "fst x" and b = "f (fst x)"
         and p = "snd x" and st = st] u u'
  have eq: "out' = out" "st1' = st1" and sh: "same_shape h1' h1"
    by simp_all
  show ?case
  proof (cases out)
    case (Inl e)
    with u u' eq show ?thesis by simp
  next
    case (Inr a)
    with u u' eq Cons.IH [OF sh, where st = st1] show ?thesis by simp
  qed
qed

lemma visits_correct_bias:
  "visits (map (\<lambda>grp. grp\<lparr>group_correct_bias := f grp\<rparr>) groups)
     = map (\<lambda>x. ((fst x)\<lparr>group_correct_bias := f (fst x)\<rparr>, snd x)) (visits groups)"
  by (induction groups) (simp_all add: visits_def)

lemma step_correct_bias:
  "fst (step closure
          (opt\<lparr>param_groups := map (\<lambda>grp. grp\<lparr>group_correct_bias := f grp\<rparr>) (param_groups opt)\<rparr>,
           h))
     = fst (step closure (opt, h))
   \<and> state (fst (snd (step closure
          (opt\<lparr>param_groups := map (\<lambda>grp. grp\<lparr>group_correct_bias := f grp\<rparr>) (param_groups opt)\<rparr>,
           h))))
     = state (fst (snd (step closure (opt, h))))"
proof -
  have "same_shape (closure_heap closure h) (closure_heap closure h)"
    by (simp add: same_shape_def)
  from loop_visits_correct_bias [OF this, where f = f and xs = "visits (param_groups opt)"
         and st = "state opt"]
  show ?thesis
    by (simp add: step_outcome step_world visits_correct_bias)
qed

text \<open>
  Claim C9. The moments that \<open>step\<close> stores are the raw moving averages: the state after a
  call is the same whatever the \<open>correct_bias\<close> flags of the groups are, so the bias
  correction writes nothing to the stored moments; and for an updated parameter they are
  \<open>beta1 * m + (1 - beta1) * grad\<close> and \<open>beta2 * v + (1 - beta2) * grad\<^sup>2\<close>, with no division by
  \<open>1 - beta ^ t\<close>, also when \<open>correct_bias\<close> is set.
\<close>

theorem stored_moments_raw:
  "state (fst (snd (step closure
       (opt\<lparr>param_groups := map (\<lambda>grp. grp\<lparr>group_correct_bias := f grp\<rparr>) (param_groups opt)\<rparr>,
        h))))
     = state (fst (snd (step closure (opt, h))))
   \<and> (fst (step closure (opt, h)) = Inr r \<and> (grp, p) \<in> set (visits (param_groups opt))
        \<and> visit_count (param_groups opt) p = 1
        \<and> grad (closure_heap closure h p) = Some (Dense g) \<longrightarrow>
      map_option state_m (state (fst (snd (step closure (opt, h)))) p)
        = Some (spec_m (fst (group_betas grp))
                  (state_m (state_or_new (state opt p) (closure_heap closure h p))) g)
      \<and> map_option state_v (state (fst (snd (step closure (opt, h)))) p)
        = Some (spec_v (snd (group_betas grp))
                  (state_v (state_or_new (state opt p) (closure_heap closure h p))) g))"
proof (intro conjI impI)
  show "state (fst (snd (step closure
       (opt\<lparr>param_groups := map (\<lambda>grp. grp\<lparr>group_correct_bias := f grp\<rparr>) (param_groups opt)\<rparr>,
        h))))
     = state (fst (snd (step closure (opt, h))))"
    using step_correct_bias [where closure = closure and opt = opt and f = f and h = h] by simp
next
  assume a: "fst (step closure (opt, h)) = Inr r \<and> (grp, p) \<in> set (visits (param_groups opt))
        \<and> visit_count (param_groups opt) p = 1
        \<and> grad (closure_heap closure h p) = Some (Dense g)"
  then have "fst (step closure (opt, h)) = Inr r" "(grp, p) \<in> set (visits (param_groups opt))"
    "visit_count (param_groups opt) p = 1" "grad (closure_heap closure h p) = Some (Dense g)"
    by simp_all
  note d = step_dense [OF this]
  from d show "map_option state_m (state (fst (snd (step closure (opt, h)))) p)
        = Some (spec_m (fst (group_betas grp))
                  (state_m (state_or_new (state opt p) (closure_heap closure h p))) g)"
    by simp
  from d show "map_option state_v (state (fst (snd (step closure (opt, h)))) p)
        = Some (spec_v (snd (group_betas grp))
                  (state_v (state_or_new (state opt p) (closure_heap closure h p))) g)"
    by simp
qed

theorem stored_moments_raw_witness:
  "fst (step (None :: nat closure option) (example_optimizer, example_heap)) = Inr None
   \<and> (example_group, 1) \<in> set (visits (param_groups example_optimizer))
   \<and> visit_count (param_groups example_optimizer) 1 = 1
   \<and> grad (closure_heap (None :: nat closure option) example_heap 1) = Some (Dense [1 / 10])
   \<and> group_correct_bias example_group
   \<and> map_option state_m
        (state (fst (snd (step (None :: nat closure option) (example_optimizer, example_heap)))) 1)
       = Some [1 / 100]
   \<and> map_option state_v
        (state (fst (snd (step (None :: nat closure option) (example_optimizer, example_heap)))) 1)
       = Some [1 / 100000]
   \<and> state (fst (snd (step (None :: nat closure option)
        (example_optimizer\<lparr>param_groups :=
           map (\<lambda>grp. grp\<lparr>group_correct_bias := False\<rparr>) (param_groups example_optimizer)\<rparr>,
         example_heap))))
       = state (fst (snd (step (None :: nat closure option) (example_optimizer, example_heap))))"
proof -
  let ?c = "None :: nat closure option"
  have h2: "(example_group, 1) \<in> set (visits (param_groups example_optimizer))"
    by (simp add: example_visits)
  have h4: "grad (closure_heap ?c example_heap 1) = Some (Dense [1 / 10])"
    by (simp add: closure_heap_def example_heap_def)
  note t = stored_moments_raw [where closure = ?c and opt = example_optimizer
      and f = "\<lambda>_. False" and h = example_heap and r = None and grp = example_group
      and p = 1 and g = "[1 / 10]"]
  from t example_step_ok h2 example_visit_count h4
  have "map_option state_m (state (fst (snd (step ?c (example_optimizer, example_heap)))) 1)
        = Some (spec_m (fst (group_betas example_group))
                  (state_m (state_or_new (state example_optimizer 1)
                     (closure_heap ?c example_heap 1))) [1 / 10])
      \<and> map_option state_v (state (fst (snd (step ?c (example_optimizer, example_heap)))) 1)
        = Some (spec_v (snd (group_betas example_group))
                  (state_v (state_or_new (state example_optimizer 1)
                     (closure_heap ?c example_heap 1))) [1 / 10])"
    by blast
  then have m: "map_option state_m
        (state (fst (snd (step ?c (example_optimizer, example_heap)))) 1) = Some [1 / 100]
     \<and> map_option state_v
        (state (fst (snd (step ?c (example_optimizer, example_heap)))) 1) = Some [1 / 100000]"
    by (simp add: example_group_fields example_param state_or_new_def zeros_like_def
          spec_m_def spec_v_def power2_eq_square)
  from t have e: "state (fst (snd (step ?c
        (example_optimizer\<lparr>param_groups :=
           map (\<lambda>grp. grp\<lparr>group_correct_bias := False\<rparr>) (param_groups example_optimizer)\<rparr>,
         example_heap))))
       = state (fst (snd (step ?c (example_optimizer, example_heap))))"
    by blast
  from example_step_ok h2 example_visit_count h4 m e show ?thesis
    by (simp add: example_group_fields)
qed

end
